theory Spec2Isabelle
  imports Main
begin

section \<open>JavaScript strings, arrays and values used by Arguments.ts\<close>

text \<open>
  Strings are modelled as \<^typ>\<open>string\<close> and read as ASCII text: \<open>toLowerCase\<close> maps
  the letters A to Z to a to z and leaves every other character alone, and \<open>trim\<close>
  strips the ASCII white space of ECMAScript (tab, line feed, vertical tab, form feed,
  carriage return, space) from both ends. Text outside ASCII is not covered.
\<close>

definition toLowerCase_char :: "char \<Rightarrow> char" where
  "toLowerCase_char c =
     (case map_of (zip ''ABCDEFGHIJKLMNOPQRSTUVWXYZ'' ''abcdefghijklmnopqrstuvwxyz'') c of
        None \<Rightarrow> c
      | Some l \<Rightarrow> l)"

definition toLowerCase :: "string \<Rightarrow> string" where
  "toLowerCase s = map toLowerCase_char s"

definition isWhiteSpace :: "char \<Rightarrow> bool" where
  "isWhiteSpace c = (c \<in> set [CHR 0x09, CHR 0x0A, CHR 0x0B, CHR 0x0C, CHR 0x0D, CHR '' ''])"

definition trim :: "string \<Rightarrow> string" where
  "trim s = rev (dropWhile isWhiteSpace (rev (dropWhile isWhiteSpace s)))"

text \<open>\<open>s.substring(0, 1)\<close>: the first character, or the empty string.\<close>

definition substring01 :: "string \<Rightarrow> string" where
  "substring01 s = take 1 s"

text \<open>\<open>xs.join(sep)\<close>; the empty array joins to the empty string.\<close>

fun join :: "string \<Rightarrow> string list \<Rightarrow> string" where
  "join sep [] = []"
| "join sep [x] = x"
| "join sep (x # y # ys) = x @ sep @ join sep (y # ys)"

text \<open>
  \<open>s.split(c)\<close> for a one-character separator: \<open>splitAcc\<close> carries the segment read
  so far; the result always has at least one segment.
\<close>

fun splitAcc :: "char \<Rightarrow> string \<Rightarrow> string \<Rightarrow> string list" where
  "splitAcc c acc [] = [acc]"
| "splitAcc c acc (x # xs) =
     (if x = c then acc # splitAcc c [] xs else splitAcc c (acc @ [x]) xs)"

definition split :: "char \<Rightarrow> string \<Rightarrow> string list" where
  "split c s = splitAcc c [] s"

text \<open>
  The JavaScript \<open>Map\<close>: entries in insertion order with unique keys. \<open>set\<close> on a key
  that is present replaces the value where it stands; \<open>new Map(entries)\<close> sets the
  entries in order.
\<close>

fun Map_set :: "'k \<Rightarrow> 'v \<Rightarrow> ('k \<times> 'v) list \<Rightarrow> ('k \<times> 'v) list" where
  "Map_set k v [] = [(k, v)]"
| "Map_set k v ((k', v') # m) =
     (if k' = k then (k, v) # m else (k', v') # Map_set k v m)"

definition new_Map :: "('k \<times> 'v) list \<Rightarrow> ('k \<times> 'v) list" where
  "new_Map entries = foldl (\<lambda>m (k, v). Map_set k v m) [] entries"

definition Map_get :: "('k \<times> 'v) list \<Rightarrow> 'k \<Rightarrow> 'v option" where
  "Map_get m k = map_of m k"

text \<open>
  The raw value of a flag token, \<open>undefined | string | boolean\<close>; \<open>null\<close> is outside
  the declared type and is kept because \<open>booleanConvertor\<close> tests for it.
\<close>

datatype rawValue = RUndefined | RNull | RBool bool | RStr string

text \<open>
  The values convertors and default suppliers produce. \<open>JNum\<close> holds the integers
  among the JavaScript numbers and \<open>JObj\<close> an object by its identity.
\<close>

datatype jsval = JUndefined | JNull | JBool bool | JStr string | JNum int | JObj nat

text \<open>
  Modelled from the spec: the classes \<open>PrintableException\<close> and \<open>InfoInterruption\<close>
  (the files src/PrintableException.ts and src/InfoInterruption.ts are not among the
  sources). The spec describes the help interruption as a control-flow signal carrying
  the rendered help text, and the exception classification as telling printable
  interruptions, help display among them, from arbitrary program errors: so
  \<open>InfoInterruption\<close> carries the message it is constructed with and is a subclass of
  \<open>PrintableException\<close>.

  The other two constructors are what the code itself throws: \<open>Error\<close> is the
  built-in class with its message, \<open>TypeError\<close> is what reading a property of
  \<open>undefined\<close> raises.
\<close>

datatype exn = Error string | TypeError | PrintableException string | InfoInterruption string

fun instanceof_PrintableException :: "exn \<Rightarrow> bool" where
  "instanceof_PrintableException (Error m) = False"
| "instanceof_PrintableException TypeError = False"
| "instanceof_PrintableException (PrintableException m) = True"
| "instanceof_PrintableException (InfoInterruption m) = True"

text \<open>
  A call that may throw and may change the program state \<open>'s\<close>: it returns the thrown
  value (\<open>Inl\<close>) or the result (\<open>Inr\<close>), and the state it leaves.
\<close>

type_synonym ('s, 'a) eff = "'s \<Rightarrow> (exn + 'a) \<times> 's"

section \<open>Convertors\<close>

type_synonym 's Convertor = "rawValue \<Rightarrow> ('s, jsval) eff"

text \<open>The template literal \<open>`${v}`\<close> on a raw value.\<close>

fun template :: "rawValue \<Rightarrow> string" where
  "template RUndefined = ''undefined''"
| "template RNull = ''null''"
| "template (RBool b) = (if b then ''true'' else ''false'')"
| "template (RStr s) = s"

definition booleanConvertor :: "rawValue \<Rightarrow> jsval" where
  "booleanConvertor v =
     (if v = RUndefined then JBool False
      else if v = RNull then JBool False
      else if v = RBool False then JBool False
      else if v = RBool True then JBool True
      else let s = trim (toLowerCase (template v)) in
        if s = ''true'' then JBool True
        else if s = ''1'' then JBool True
        else JBool True)"

definition stringConvertor :: "rawValue \<Rightarrow> jsval" where
  "stringConvertor v = (if v = RUndefined then JUndefined else JStr (template v))"

text \<open>\<open>Number\<close> is the built-in conversion, taken as a parameter.\<close>

definition numberConvertor :: "(rawValue \<Rightarrow> jsval) \<Rightarrow> rawValue \<Rightarrow> jsval" where
  "numberConvertor Number v = (if v = RUndefined then JUndefined else Number v)"

text \<open>A convertor that neither throws nor touches the state.\<close>

definition pure :: "(rawValue \<Rightarrow> jsval) \<Rightarrow> 's Convertor" where
  "pure f v s = (Inr (f v), s)"

section \<open>Flag options and declarations\<close>

record 's FlagOptions =
  opt_convertor :: "'s Convertor"
  opt_shortName :: "string option"
  opt_description :: "string option"
  opt_default :: "('s, jsval) eff option"
  opt_excludeFromHelp :: "bool option"

text \<open>
  The interface declares \<open>description: string[]\<close>, but \<open>createFlagDeclarations\<close>
  stores \<open>undefined\<close> when the option has no description: the field is an option here.
\<close>

record 's FlagDeclaration =
  longName :: string
  shortName :: "string option"
  description :: "string list option"
  default :: "('s, jsval) eff option"
  convertor :: "'s Convertor"
  excludeFromHelp :: bool

definition helpFlagNames :: "string list" where
  "helpFlagNames = [''help'', ''h'']"

definition normalizeName :: "string \<Rightarrow> string" where
  "normalizeName name = toLowerCase (trim name)"

definition normalizeShortName :: "string \<Rightarrow> string" where
  "normalizeShortName name = substring01 (normalizeName name)"

text \<open>
  The declaration built from one entry of \<open>Object.entries(options)\<close>. A short name
  that is the empty string is falsy and gives \<open>undefined\<close>.
\<close>

definition declarationOf :: "string \<Rightarrow> 's FlagOptions \<Rightarrow> 's FlagDeclaration" where
  "declarationOf name op =
     \<lparr> longName = normalizeName name,
       shortName = (case opt_shortName op of
                      None \<Rightarrow> None
                    | Some sn \<Rightarrow> if sn \<noteq> [] then Some (normalizeShortName sn) else None),
       description = (case opt_description op of
                        None \<Rightarrow> None
                      | Some d \<Rightarrow> Some (split (CHR 0x0A) (trim d))),
       default = opt_default op,
       convertor = opt_convertor op,
       excludeFromHelp = (case opt_excludeFromHelp op of None \<Rightarrow> False | Some b \<Rightarrow> b) \<rparr>"

text \<open>
  \<open>options\<close> is the list \<open>Object.entries\<close> returns for the options object: its keys
  are pairwise different strings.
\<close>

definition createFlagDeclarations ::
  "(string \<times> 's FlagOptions) list \<Rightarrow> (string \<times> 's FlagDeclaration) list" where
  "createFlagDeclarations options =
     new_Map (map (\<lambda>declaration. (longName declaration, declaration))
                  (map (\<lambda>(name, op). declarationOf name op) options))"

section \<open>The Arguments class\<close>

text \<open>
  Modelled from the spec: the tokens \<open>parse\<close> returns (src/model/parse.ts is not among
  the sources), a tagged variant: a \<open>Flag\<close> with a name and a value that is a string,
  a boolean or undefined, or a \<open>Command\<close> with a name. A command has no \<open>value\<close>
  property, so reading it gives \<open>undefined\<close>.
\<close>

datatype tag = FlagTag | CommandTag

datatype token = Flag string rawValue | Command string

fun tag_of :: "token \<Rightarrow> tag" where
  "tag_of (Flag n v) = FlagTag"
| "tag_of (Command n) = CommandTag"

fun name_of :: "token \<Rightarrow> string" where
  "name_of (Flag n v) = n"
| "name_of (Command n) = n"

fun value_of :: "token \<Rightarrow> rawValue" where
  "value_of (Flag n v) = v"
| "value_of (Command n) = RUndefined"

text \<open>The private fields of an instance.\<close>

record 's Arguments =
  rawArgs :: "token list"
  flagDeclarations :: "(string \<times> 's FlagDeclaration) list"
  desciprion :: "string option"

text \<open>
  The constructor; \<open>parsed\<close> is the value of \<open>parse(Deno.args)\<close>.
\<close>

definition constructor :: "(string \<times> 's FlagOptions) list \<Rightarrow> token list \<Rightarrow> 's Arguments" where
  "constructor flagOptions parsed =
     \<lparr> rawArgs = parsed,
       flagDeclarations = createFlagDeclarations flagOptions,
       desciprion = None \<rparr>"

definition setDesciprion :: "string \<Rightarrow> 's Arguments \<Rightarrow> 's Arguments" where
  "setDesciprion d a = a\<lparr> desciprion := Some (trim d) \<rparr>"

text \<open>
  The methods run in a program state \<open>'s\<close> that convertors and default suppliers may
  change. \<open>this\<close> reads the instance out of the program state, so a callback that
  changes the instance is a function under which \<open>this\<close> changes.
\<close>

definition getRaw :: "'s Arguments \<Rightarrow> string \<Rightarrow> tag \<Rightarrow> token option" where
  "getRaw a name t =
     find (\<lambda>f. normalizeName name = normalizeName (name_of f))
          (filter (\<lambda>arg. tag_of arg = t) (rawArgs a))"

definition notFoundMessage :: "string \<Rightarrow> string" where
  "notFoundMessage name = ''Argument '' @ [CHR 0x22] @ name @ [CHR 0x22] @ '' is not declared.''"

text \<open>
  \<open>#getFlagValue\<close>: the look-up of the declaration and its guard, the look-up of the
  token and its guard, then the second look-up of the token (\<open>?.value\<close>) and the
  choice between the convertor and \<open>dec.default?.() ?? undefined\<close>.
\<close>

definition getFlagValue :: "('s \<Rightarrow> 's Arguments) \<Rightarrow> string \<Rightarrow> ('s, jsval) eff" where
  "getFlagValue this name s =
     (case Map_get (flagDeclarations (this s)) (normalizeName name) of
        None \<Rightarrow> (Inl (Error (notFoundMessage name)), s)
      | Some dec \<Rightarrow>
          (case getRaw (this s) (longName dec) FlagTag of
             None \<Rightarrow> (Inl (Error (notFoundMessage name)), s)
           | Some flag \<Rightarrow>
               (let rawValue = (case getRaw (this s) (longName dec) FlagTag of
                                  None \<Rightarrow> RUndefined
                                | Some f \<Rightarrow> value_of f)
                in if rawValue \<noteq> RUndefined then convertor dec rawValue s
                   else (case default dec of
                           None \<Rightarrow> (Inr JUndefined, s)
                         | Some d \<Rightarrow>
                             (case d s of
                                (Inl e, s') \<Rightarrow> (Inl e, s')
                              | (Inr v, s') \<Rightarrow>
                                  (Inr (if v = JNull \<or> v = JUndefined then JUndefined else v), s'))))))"

text \<open>
  \<open>xs.map(f)\<close> for a callback that may throw and may change the program state: the
  elements are visited in order and the first throw ends the loop.
\<close>

fun array_map :: "('a \<Rightarrow> ('s, 'b) eff) \<Rightarrow> 'a list \<Rightarrow> ('s, 'b list) eff" where
  "array_map f [] s = (Inr [], s)"
| "array_map f (x # xs) s =
     (case f x s of
        (Inl e, s') \<Rightarrow> (Inl e, s')
      | (Inr y, s') \<Rightarrow>
          (case array_map f xs s' of
             (Inl e, s'') \<Rightarrow> (Inl e, s'')
           | (Inr ys, s'') \<Rightarrow> (Inr (y # ys), s'')))"

text \<open>
  \<open>getFlags\<close> returns the object built by \<open>Object.fromEntries\<close>, given here by its
  entries: one property for each key of the declaration map.
\<close>

definition getFlags :: "('s \<Rightarrow> 's Arguments) \<Rightarrow> ('s, (string \<times> jsval) list) eff" where
  "getFlags this s =
     array_map (\<lambda>longName t.
                  case getFlagValue this longName t of
                    (Inl e, t') \<Rightarrow> (Inl e, t')
                  | (Inr v, t') \<Rightarrow> (Inr (longName, v), t'))
               (map fst (flagDeclarations (this s))) s"

definition isHelpRequested :: "('s \<Rightarrow> 's Arguments) \<Rightarrow> ('s, bool) eff" where
  "isHelpRequested this s =
     (case getFlagValue this (helpFlagNames ! 0) s of
        (Inl e, s') \<Rightarrow> (Inl e, s')
      | (Inr v, s') \<Rightarrow> (Inr (v = JBool True), s'))"

subsection \<open>The help message\<close>

text \<open>
  The colour functions \<open>primary\<close> and \<open>secondary\<close> of src/helpers/colors.ts and
  \<open>Deno.inspect\<close> are parameters: functions from text to text and from a value to
  text.
\<close>

definition tab :: "nat \<Rightarrow> string" where
  "tab n = replicate (max n 1 * 2) (CHR '' '')"

definition names :: "(string \<Rightarrow> string) \<Rightarrow> 's FlagDeclaration \<Rightarrow> nat \<Rightarrow> string" where
  "names primary dec indent =
     (let long = ''--'' @ longName dec;
          short = (case shortName dec of
                     None \<Rightarrow> []
                   | Some sn \<Rightarrow> if sn \<noteq> [] then ''-'' @ sn else []);
          text = join '', '' (map primary (filter (\<lambda>n. n \<noteq> []) [long, short]))
      in tab indent @ text)"

text \<open>
  The closure \<open>description\<close> of the source: \<open>dec.description.map\<close> throws a
  \<open>TypeError\<close> when the declaration holds \<open>undefined\<close>.
\<close>

definition descriptionText :: "(string \<Rightarrow> string) \<Rightarrow> 's FlagDeclaration \<Rightarrow> nat \<Rightarrow> exn + string" where
  "descriptionText secondary dec indent =
     (case description dec of
        None \<Rightarrow> Inl TypeError
      | Some ls \<Rightarrow> Inr (join [CHR 0x0A] (map (\<lambda>l. tab indent @ l) (map secondary ls))))"

definition defaultValue ::
  "(string \<Rightarrow> string) \<Rightarrow> (jsval \<Rightarrow> string) \<Rightarrow> 's FlagDeclaration \<Rightarrow> nat \<Rightarrow> ('s, string) eff" where
  "defaultValue secondary inspect dec indent s =
     (case default dec of
        None \<Rightarrow> (Inr [], s)
      | Some d \<Rightarrow>
          (case d s of
             (Inl e, s') \<Rightarrow> (Inl e, s')
           | (Inr v, s') \<Rightarrow>
               (let serialized = split (CHR 0x0A) (inspect v)
                in (Inr (tab indent @ secondary ''Default: ''
                          @ join (CHR 0x0A # tab (indent + 2)) serialized), s'))))"

text \<open>The block of one declaration: the callback of the second \<open>map\<close>.\<close>

definition helpBlock ::
  "(string \<Rightarrow> string) \<Rightarrow> (string \<Rightarrow> string) \<Rightarrow> (jsval \<Rightarrow> string) \<Rightarrow> 's FlagDeclaration
     \<Rightarrow> ('s, string) eff" where
  "helpBlock primary secondary inspect dec s =
     (let n = names primary dec 1 in
      case descriptionText secondary dec 2 of
        Inl e \<Rightarrow> (Inl e, s)
      | Inr d \<Rightarrow>
          (case defaultValue secondary inspect dec 2 s of
             (Inl e, s') \<Rightarrow> (Inl e, s')
           | (Inr dv, s') \<Rightarrow>
               (Inr (join [CHR 0x0A] (filter (\<lambda>x. x \<noteq> []) [n, d, dv])), s')))"

definition computeHelpMessage ::
  "(string \<Rightarrow> string) \<Rightarrow> (string \<Rightarrow> string) \<Rightarrow> (jsval \<Rightarrow> string) \<Rightarrow> ('s \<Rightarrow> 's Arguments)
     \<Rightarrow> ('s, string) eff" where
  "computeHelpMessage primary secondary inspect this s =
     (case array_map (helpBlock primary secondary inspect)
             (filter (\<lambda>dec. \<not> excludeFromHelp dec) (map snd (flagDeclarations (this s)))) s of
        (Inl e, s') \<Rightarrow> (Inl e, s')
      | (Inr blocks, s') \<Rightarrow>
          (let declarations = join [CHR 0x0A, CHR 0x0A] blocks;
               description = (case desciprion (this s') of None \<Rightarrow> [] | Some d \<Rightarrow> d)
           in (Inr (join [CHR 0x0A]
                      (filter (\<lambda>x. trim x \<noteq> [])
                         [CHR 0x0A # description, CHR 0x0A # declarations])), s')))"

definition triggerHelp ::
  "(string \<Rightarrow> string) \<Rightarrow> (string \<Rightarrow> string) \<Rightarrow> (jsval \<Rightarrow> string) \<Rightarrow> ('s \<Rightarrow> 's Arguments)
     \<Rightarrow> ('s, unit) eff" where
  "triggerHelp primary secondary inspect this s =
     (case computeHelpMessage primary secondary inspect this s of
        (Inl e, s') \<Rightarrow> (Inl e, s')
      | (Inr message, s') \<Rightarrow> (Inl (InfoInterruption message), s'))"

definition isPrintableException :: "exn \<Rightarrow> bool" where
  "isPrintableException error = instanceof_PrintableException error"

definition createHelp :: "(string \<times> 's FlagOptions) list" where
  "createHelp =
     [(helpFlagNames ! 0,
       \<lparr> opt_convertor = pure booleanConvertor,
         opt_shortName = Some (helpFlagNames ! 1),
         opt_description = Some ''Show this help message.'',
         opt_default = None,
         opt_excludeFromHelp = Some True \<rparr>)]"

section \<open>Example instances\<close>

text \<open>
  The program state of the examples is a counter that every call of the default
  supplier below increments. \<open>exampleNumber\<close> stands for the built-in \<open>Number\<close> on the
  one string the examples convert.
\<close>

definition exampleNumber :: "rawValue \<Rightarrow> jsval" where
  "exampleNumber v = (if v = RStr ''9090'' then JNum 9090 else JUndefined)"

text \<open>
  The declaration \<open>{port: {shortName: 'p', convertor: numberConvertor, default: () => 8080}}\<close>.
\<close>

definition portOptions :: "nat FlagOptions" where
  "portOptions =
     \<lparr> opt_convertor = pure (numberConvertor exampleNumber),
       opt_shortName = Some ''p'',
       opt_description = None,
       opt_default = Some (\<lambda>s. (Inr (JNum 8080), Suc s)),
       opt_excludeFromHelp = None \<rparr>"

text \<open>An instance with that one declaration, constructed on the given tokens.\<close>

definition portArguments :: "token list \<Rightarrow> nat \<Rightarrow> nat Arguments" where
  "portArguments parsed s = constructor [(''port'', portOptions)] parsed"

definition exampleTokens :: "token list" where
  "exampleTokens =
     [Command ''serve'', Flag ''p'' (RStr ''1''), Flag '' PORT'' (RStr ''9090''),
      Flag ''port'' (RStr ''1'')]"

definition exampleA :: "nat FlagOptions" where
  "exampleA =
     \<lparr> opt_convertor = pure stringConvertor,
       opt_shortName = None,
       opt_description = Some ''first'',
       opt_default = None,
       opt_excludeFromHelp = None \<rparr>"

definition exampleB :: "nat FlagOptions" where
  "exampleB =
     \<lparr> opt_convertor = pure stringConvertor,
       opt_shortName = Some ''x'',
       opt_description = Some ''second'',
       opt_default = None,
       opt_excludeFromHelp = None \<rparr>"

text \<open>A boolean flag, and a declaration named in the comma form.\<close>

definition debugOptions :: "nat FlagOptions" where
  "debugOptions =
     \<lparr> opt_convertor = pure booleanConvertor,
       opt_shortName = Some ''d'',
       opt_description = Some ''Verbose output.'',
       opt_default = None,
       opt_excludeFromHelp = None \<rparr>"

definition debugArguments :: "token list \<Rightarrow> nat \<Rightarrow> nat Arguments" where
  "debugArguments parsed s = constructor [(''debug'', debugOptions)] parsed"

definition configOptions :: "nat FlagOptions" where
  "configOptions =
     \<lparr> opt_convertor = pure stringConvertor,
       opt_shortName = None,
       opt_description = Some ''Path of the configuration file.'',
       opt_default = None,
       opt_excludeFromHelp = None \<rparr>"

text \<open>
  Instances for the help message: the built-in help flag beside \<open>port\<close> with a
  description, below a program description; and the same with a default supplier
  that throws. \<open>exampleInspect\<close> stands for \<open>Deno.inspect\<close> on the one value printed.
\<close>

definition exampleInspect :: "jsval \<Rightarrow> string" where
  "exampleInspect v = (if v = JNum 8080 then ''8080'' else ''?'')"

definition describedOptions :: "nat FlagOptions" where
  "describedOptions = portOptions\<lparr> opt_description := Some ''HTTP port.'' \<rparr>"

definition helpArguments :: "nat \<Rightarrow> nat Arguments" where
  "helpArguments s =
     setDesciprion ''Serves files.''
       (constructor (createHelp @ [(''port'', describedOptions)]) [Flag ''help'' (RBool True)])"

definition helpText :: string where
  "helpText =
     CHR 0x0A # ''Serves files.'' @ [CHR 0x0A, CHR 0x0A] @ ''  --port, -p'' @ [CHR 0x0A]
       @ ''    HTTP port.'' @ [CHR 0x0A] @ ''    Default: 8080''"

definition failingOptions :: "nat FlagOptions" where
  "failingOptions = describedOptions\<lparr> opt_default := Some (\<lambda>s. (Inl (Error ''boom''), s)) \<rparr>"

definition failingArguments :: "nat \<Rightarrow> nat Arguments" where
  "failingArguments s = constructor (createHelp @ [(''port'', failingOptions)]) []"

text \<open>An instance with the built-in help flag alone, run with \<open>-h\<close>.\<close>

definition helpShortArguments :: "nat \<Rightarrow> nat Arguments" where
  "helpShortArguments s = constructor createHelp [Flag ''h'' (RBool True)]"

text \<open>
  A program state that holds the description of the instance beside a counter: the
  default supplier returns a new object at every call and leaves the instance alone.
\<close>

type_synonym exampleState = "nat \<times> string option"

definition outOptions :: "exampleState FlagOptions" where
  "outOptions =
     \<lparr> opt_convertor = pure stringConvertor,
       opt_shortName = Some ''o'',
       opt_description = Some ''Output directory.'',
       opt_default = Some (\<lambda>(n, d). (Inr (JObj n), (Suc n, d))),
       opt_excludeFromHelp = None \<rparr>"

definition outThis :: "exampleState \<Rightarrow> exampleState Arguments" where
  "outThis s =
     (constructor [(''out'', outOptions)] [Flag ''out'' RUndefined])\<lparr> desciprion := snd s \<rparr>"

section \<open>Facts about the Map and the token search\<close>

lemmas eval_defs =
  constructor_def createFlagDeclarations_def new_Map_def Map_get_def declarationOf_def
  normalizeName_def normalizeShortName_def substring01_def trim_def toLowerCase_def
  toLowerCase_char_def isWhiteSpace_def getRaw_def getFlagValue_def pure_def split_def
  notFoundMessage_def helpFlagNames_def

lemmas help_defs =
  computeHelpMessage_def helpBlock_def descriptionText_def defaultValue_def names_def tab_def
  triggerHelp_def isPrintableException_def createHelp_def setDesciprion_def

lemma Map_set_subset: "set (Map_set k v m) \<subseteq> insert (k, v) (set m)"
  by (induction m) (auto split: if_splits)

lemma Map_set_keys: "set (map fst (Map_set k v m)) = insert k (set (map fst m))"
proof (induction m)
  case Nil
  then show ?case by simp
next
  case (Cons p m)
  obtain k' v' where p: "p = (k', v')" by (cases p)
  show ?case
  proof (cases "k' = k")
    case True
    then show ?thesis by (simp add: p)
  next
    case False
    then show ?thesis using Cons.IH by (simp add: p insert_commute)
  qed
qed

lemma Map_set_distinct: "distinct (map fst m) \<Longrightarrow> distinct (map fst (Map_set k v m))"
proof (induction m)
  case Nil
  then show ?case by simp
next
  case (Cons p m)
  obtain k' v' where p: "p = (k', v')" by (cases p)
  from Cons.prems have d: "distinct (map fst m)" and n: "k' \<notin> set (map fst m)"
    by (simp_all add: p)
  show ?case
  proof (cases "k' = k")
    case True
    then show ?thesis using d n by (simp add: p)
  next
    case False
    have "k' \<notin> set (map fst (Map_set k v m))"
      unfolding Map_set_keys using False n by simp
    then show ?thesis using False Cons.IH [OF d] by (simp add: p)
  qed
qed

lemma Map_get_Map_set: "Map_get (Map_set k v m) k' = (if k' = k then Some v else Map_get m k')"
  by (induction m) (auto simp: Map_get_def)

lemma foldl_Map_set_subset:
  "set (foldl (\<lambda>m (k, v). Map_set k v m) acc es) \<subseteq> set acc \<union> set es"
proof (induction es arbitrary: acc)
  case Nil
  then show ?case by simp
next
  case (Cons e es)
  obtain k v where e: "e = (k, v)" by (cases e)
  have "set (foldl (\<lambda>m (k, v). Map_set k v m) (Map_set k v acc) es)
          \<subseteq> set (Map_set k v acc) \<union> set es"
    by (rule Cons.IH)
  with Map_set_subset [of k v acc] show ?case by (auto simp: e)
qed

lemma foldl_Map_set_keys:
  "set (map fst (foldl (\<lambda>m (k, v). Map_set k v m) acc es)) =
     set (map fst acc) \<union> set (map fst es)"
proof (induction es arbitrary: acc)
  case Nil
  then show ?case by simp
next
  case (Cons e es)
  obtain k v where e: "e = (k, v)" by (cases e)
  show ?case
    unfolding e foldl_Cons prod.case Cons.IH Map_set_keys by auto
qed

lemma foldl_Map_set_distinct:
  "distinct (map fst acc) \<Longrightarrow> distinct (map fst (foldl (\<lambda>m (k, v). Map_set k v m) acc es))"
  by (induction es arbitrary: acc) (auto simp: Map_set_distinct split: prod.splits)

lemma foldl_Map_set_get:
  "Map_get (foldl (\<lambda>m (k, v). Map_set k v m) acc es) k' =
     (case map_of (rev es) k' of None \<Rightarrow> Map_get acc k' | Some v \<Rightarrow> Some v)"
proof (induction es arbitrary: acc)
  case Nil
  then show ?case by simp
next
  case (Cons e es)
  obtain k v where e: "e = (k, v)" by (cases e)
  show ?case
    by (auto simp: e Cons.IH Map_get_Map_set map_add_def split: option.splits)
qed

lemma new_Map_subset: "set (new_Map es) \<subseteq> set es"
  using foldl_Map_set_subset [of "[]" es] by (simp add: new_Map_def)

lemma new_Map_keys: "set (map fst (new_Map es)) = set (map fst es)"
  using foldl_Map_set_keys [of "[]" es] by (simp add: new_Map_def)

lemma new_Map_distinct: "distinct (map fst (new_Map es))"
  using foldl_Map_set_distinct [of "[]" es] by (simp add: new_Map_def)

text \<open>Of several entries with one key, \<open>new Map\<close> keeps the value of the last.\<close>

lemma Map_get_new_Map: "Map_get (new_Map es) k = map_of (rev es) k"
  using foldl_Map_set_get [of "[]" es k]
  by (simp add: new_Map_def Map_get_def split: option.splits)

lemma Map_get_map_values:
  "Map_get (map (\<lambda>(k, d). (k, f d)) m) k = map_option f (Map_get m k)"
  by (induction m) (auto simp: Map_get_def)

lemma find_first:
  assumes "P x" and "\<forall>y \<in> set pre. \<not> P y"
  shows "find P (pre @ x # post) = Some x"
  using assms by (induction pre) auto

lemma getRaw_first:
  assumes "rawArgs a = pre @ Flag n v # post"
    and "normalizeName n = normalizeName nm"
    and "\<forall>t \<in> set pre. tag_of t = FlagTag \<longrightarrow> normalizeName (name_of t) \<noteq> normalizeName nm"
  shows "getRaw a nm FlagTag = Some (Flag n v)"
proof -
  let ?P = "\<lambda>f. normalizeName nm = normalizeName (name_of f)"
  have "find ?P (filter (\<lambda>arg. tag_of arg = FlagTag) pre
                  @ Flag n v # filter (\<lambda>arg. tag_of arg = FlagTag) post)
          = Some (Flag n v)"
    by (rule find_first) (use assms in auto)
  then show ?thesis by (simp add: getRaw_def assms(1))
qed

section \<open>Facts about loops with callbacks\<close>

text \<open>A property of the state that every call of the callback keeps is kept by the loop.\<close>

lemma array_map_invariant:
  assumes "\<And>x t. x \<in> set xs \<Longrightarrow> I t \<Longrightarrow> I (snd (f x t))" and "I s"
  shows "I (snd (array_map f xs s))"
  using assms
proof (induction xs arbitrary: s)
  case Nil
  then show ?case by simp
next
  case (Cons x xs)
  have 1: "I (snd (f x s))" using Cons.prems by simp
  show ?case
  proof (cases "f x s")
    case (Pair r s')
    with 1 have s': "I s'" by simp
    have 2: "I (snd (array_map f xs s'))"
      by (rule Cons.IH) (use Cons.prems s' in auto)
    show ?thesis
      using s' 2 by (cases r; cases "array_map f xs s'") (auto simp: Pair split: sum.splits)
  qed
qed


section \<open>Resolving a flag\<close>

text \<open>
  C1. The claim: a declared flag that no \<open>Flag\<close> token matches resolves to the result
  of its default supplier, or to \<open>undefined\<close> without one. The code at the declaration
  \<open>port\<close> with the default supplier of 8080 and an empty token sequence: the guard
  \<open>if (!flag) throw\<close> ends \<open>#getFlagValue\<close> and \<open>getFlags\<close> with the error of an
  undeclared argument, and the default supplier is not called (the counter stays 0).
\<close>

theorem getFlagValue_absent_token_throws:
  "getFlagValue (portArguments []) ''port'' 0 =
     (Inl (Error (''Argument '' @ [CHR 0x22] @ ''port'' @ [CHR 0x22] @ '' is not declared.'')), 0)
   \<and> getFlags (portArguments []) 0 =
     (Inl (Error (''Argument '' @ [CHR 0x22] @ ''port'' @ [CHR 0x22] @ '' is not declared.'')), 0)"
  by (simp add: getFlags_def portArguments_def portOptions_def eval_defs)

text \<open>
  What the search of \<open>#getRaw\<close> amounts to in \<open>#getFlagValue\<close>: the first \<open>Flag\<close>
  token whose name, trimmed and in lower case, is the declaration's long name decides,
  and when its value is not \<open>undefined\<close> the result is the convertor's on that value.
  The short name of the declaration is never read: with any other short names in the
  declarations the result is the same.
\<close>

lemma getFlagValue_first_long_name_match:
  fixes this :: "'s \<Rightarrow> 's Arguments"
  assumes "Map_get (flagDeclarations (this s)) (normalizeName name) = Some dec"
  shows "(rawArgs (this s) = pre @ Flag n v # post \<and>
          normalizeName n = normalizeName (longName dec) \<and>
          (\<forall>t \<in> set pre. tag_of t = FlagTag \<longrightarrow>
               normalizeName (name_of t) \<noteq> normalizeName (longName dec)) \<and>
          v \<noteq> RUndefined
          \<longrightarrow> getFlagValue this name s = convertor dec v s)
       \<and> getFlagValue
           (\<lambda>t. (this t)\<lparr> flagDeclarations :=
                    map (\<lambda>(k, d). (k, d\<lparr> shortName := g d \<rparr>)) (flagDeclarations (this t)) \<rparr>)
           name s
         = getFlagValue this name s"
proof (intro conjI impI)
  assume a: "rawArgs (this s) = pre @ Flag n v # post \<and>
          normalizeName n = normalizeName (longName dec) \<and>
          (\<forall>t \<in> set pre. tag_of t = FlagTag \<longrightarrow>
               normalizeName (name_of t) \<noteq> normalizeName (longName dec)) \<and>
          v \<noteq> RUndefined"
  from a have a1: "rawArgs (this s) = pre @ Flag n v # post"
    and a2: "normalizeName n = normalizeName (longName dec)"
    and a3: "\<forall>t \<in> set pre. tag_of t = FlagTag \<longrightarrow>
               normalizeName (name_of t) \<noteq> normalizeName (longName dec)"
    and a4: "v \<noteq> RUndefined"
    by blast+
  have "getRaw (this s) (longName dec) FlagTag = Some (Flag n v)"
    using a1 a2 a3 by (rule getRaw_first)
  then show "getFlagValue this name s = convertor dec v s"
    using assms a4 by (simp add: getFlagValue_def)
next
  let ?sh = "\<lambda>d :: 's FlagDeclaration. d\<lparr> shortName := g d \<rparr>"
  let ?this' = "\<lambda>t. (this t)\<lparr> flagDeclarations :=
                    map (\<lambda>(k, d). (k, ?sh d)) (flagDeclarations (this t)) \<rparr>"
  have 1: "Map_get (flagDeclarations (?this' s)) (normalizeName name) = Some (?sh dec)"
    using assms by (simp add: Map_get_map_values)
  have 2: "getRaw (?this' s) nm t = getRaw (this s) nm t" for nm t
    by (simp add: getRaw_def)
  show "getFlagValue ?this' name s = getFlagValue this name s"
    unfolding getFlagValue_def 1 2 assms by (simp add: Let_def split: option.split)
qed

text \<open>
  At the tokens of \<open>exampleTokens\<close> the name \<open>Port\<close> resolves to 9090: the command
  and the flag named \<open>p\<close> are passed over, and of the two flags whose names normalize
  to \<open>port\<close> the first one wins.
\<close>

lemma getFlagValue_first_long_name_match_example:
  "getFlagValue (portArguments exampleTokens) ''Port'' 0 = (Inr (JNum 9090), 0)"
proof -
  let ?dec = "declarationOf ''port'' portOptions"
  have d: "Map_get (flagDeclarations (portArguments exampleTokens 0)) (normalizeName ''Port'')
             = Some ?dec"
    by (simp add: portArguments_def eval_defs)
  have h: "rawArgs (portArguments exampleTokens 0)
        = [Command ''serve'', Flag ''p'' (RStr ''1'')]
            @ Flag '' PORT'' (RStr ''9090'') # [Flag ''port'' (RStr ''1'')] \<and>
         normalizeName '' PORT'' = normalizeName (longName ?dec) \<and>
         (\<forall>t \<in> set [Command ''serve'', Flag ''p'' (RStr ''1'')]. tag_of t = FlagTag \<longrightarrow>
              normalizeName (name_of t) \<noteq> normalizeName (longName ?dec)) \<and>
         RStr ''9090'' \<noteq> RUndefined"
    by (simp add: portArguments_def exampleTokens_def eval_defs)
  have c: "convertor ?dec (RStr ''9090'') 0 = (Inr (JNum 9090), 0)"
    by (simp add: eval_defs portOptions_def numberConvertor_def exampleNumber_def)
  from getFlagValue_first_long_name_match
         [where this = "portArguments exampleTokens" and s = 0 and name = "''Port''"
            and dec = ?dec and pre = "[Command ''serve'', Flag ''p'' (RStr ''1'')]"
            and n = "'' PORT''" and v = "RStr ''9090''"
            and post = "[Flag ''port'' (RStr ''1'')]", OF d] h c
  show ?thesis by simp
qed

text \<open>
  C2. The claim: the token sequence is searched for a \<open>Flag\<close> token whose name
  matches the long name or the short name of the declaration, the first match in token
  order wins, and with \<open>port\<close> of short name \<open>p\<close> the arguments \<open>-p 9090\<close> resolve
  \<open>port\<close> to 9090. The code stores the short name, prints it in its help as \<open>-p\<close>
  and declares the help flag with \<open>h\<close>, but the resolver compares long names only:
  a flag token \<open>p\<close> carrying 9090 resolves nothing, the resolution throws; where a
  flag token \<open>p\<close> stands before a flag token \<open>port\<close>, the later token decides and
  not the first match; and with the help flag of \<open>createHelp\<close> a flag token \<open>h\<close>
  makes \<open>isHelpRequested\<close> throw.
\<close>

theorem getFlagValue_short_name_not_matched:
  "getFlagValue (portArguments [Flag ''p'' (RStr ''9090'')]) ''port'' 0 =
     (Inl (Error (''Argument '' @ [CHR 0x22] @ ''port'' @ [CHR 0x22] @ '' is not declared.'')), 0)
   \<and> getFlagValue (portArguments [Flag ''p'' (RStr ''1''), Flag ''port'' (RStr ''9090'')])
         ''port'' 0 = (Inr (JNum 9090), 0)
   \<and> isHelpRequested helpShortArguments 0 =
     (Inl (Error (''Argument '' @ [CHR 0x22] @ ''help'' @ [CHR 0x22] @ '' is not declared.'')), 0)"
  by (simp add: isHelpRequested_def portArguments_def portOptions_def helpShortArguments_def
        createHelp_def numberConvertor_def exampleNumber_def eval_defs)

section \<open>Building the declarations\<close>

text \<open>
  C3 (amended). Two specifications whose names normalize to the same long name raise
  nothing when the declarations are built: the map holds one declaration for each
  normalized name, and for that name it is the declaration of the later specification.
\<close>

theorem createFlagDeclarations_last_spec_wins:
  assumes "normalizeName n1 = normalizeName n2"
    and "\<forall>(n, op) \<in> set post. normalizeName n \<noteq> normalizeName n2"
  shows "Map_get (createFlagDeclarations (pre @ (n1, o1) # mid @ (n2, o2) # post))
           (normalizeName n1) = Some (declarationOf n2 o2)
       \<and> distinct (map fst (createFlagDeclarations (pre @ (n1, o1) # mid @ (n2, o2) # post)))"
proof (rule conjI)
  let ?opts = "pre @ (n1, o1) # mid @ (n2, o2) # post"
  let ?e = "\<lambda>options :: (string \<times> 'a FlagOptions) list.
              map (\<lambda>declaration. (longName declaration, declaration))
                  (map (\<lambda>(name, op). declarationOf name op) options)"
  have post: "map_of (rev (?e post)) (normalizeName n2) = None"
    using assms(2) by (force simp: map_of_eq_None_iff declarationOf_def)
  show "Map_get (createFlagDeclarations ?opts) (normalizeName n1) = Some (declarationOf n2 o2)"
    using post
    by (simp add: createFlagDeclarations_def Map_get_new_Map map_add_def assms(1)
          declarationOf_def)
  show "distinct (map fst (createFlagDeclarations ?opts))"
    by (simp add: createFlagDeclarations_def new_Map_distinct)
qed

theorem createFlagDeclarations_last_spec_wins_witness:
  "Map_get (createFlagDeclarations [(''Port'', exampleA), (''port'', exampleB)]) ''port''
     = Some (declarationOf ''port'' exampleB)
   \<and> distinct (map fst (createFlagDeclarations [(''Port'', exampleA), (''port'', exampleB)]))"
proof -
  have 1: "normalizeName ''Port'' = normalizeName ''port''"
    by (simp add: eval_defs)
  have 2: "\<forall>(n, op) \<in> set ([] :: (string \<times> nat FlagOptions) list).
             normalizeName n \<noteq> normalizeName ''port''"
    by simp
  have 3: "normalizeName ''Port'' = ''port''"
    by (simp add: eval_defs)
  from createFlagDeclarations_last_spec_wins
         [OF 1 2, where pre = "[]" and mid = "[]" and ?o1.0 = exampleA and ?o2.0 = exampleB]
  show ?thesis by (simp add: 3)
qed

text \<open>
  The claim as stated fails: the specifications \<open>Port\<close> and \<open>port\<close> build a map with
  the single declaration of the second one, and nothing is reported.
\<close>

theorem createFlagDeclarations_collision_counterexample:
  "createFlagDeclarations [(''Port'', exampleA), (''port'', exampleB)] =
     [(''port'', declarationOf ''port'' exampleB)]"
  by (simp add: eval_defs)

text \<open>
  C5 (amended). The name string is not split: the long name of a declaration is the
  whole name, trimmed and in lower case, a comma included, and this is its key in the
  map. The short name comes from the \<open>shortName\<close> option alone: absent or empty it is
  \<open>undefined\<close>, otherwise the first character of the option, trimmed and in lower
  case. Every specification's normalized name is a key of the map.
\<close>

theorem createFlagDeclarations_names:
  "(\<forall>(k, dec) \<in> set (createFlagDeclarations options).
      \<exists>(name, op) \<in> set options.
         k = toLowerCase (trim name) \<and> longName dec = toLowerCase (trim name) \<and>
         shortName dec = (case opt_shortName op of
                            None \<Rightarrow> None
                          | Some sn \<Rightarrow> if sn = [] then None
                                        else Some (take 1 (toLowerCase (trim sn)))))
   \<and> (\<forall>(name, op) \<in> set options.
         \<exists>dec. Map_get (createFlagDeclarations options) (toLowerCase (trim name)) = Some dec)"
proof (intro conjI ballI)
  fix e assume "e \<in> set (createFlagDeclarations options)"
  then have "e \<in> set (map (\<lambda>declaration. (longName declaration, declaration))
                  (map (\<lambda>(name, op). declarationOf name op) options))"
    using new_Map_subset unfolding createFlagDeclarations_def by blast
  then obtain name op where "(name, op) \<in> set options"
    and "e = (longName (declarationOf name op), declarationOf name op)"
    by auto
  then show "case e of (k, dec) \<Rightarrow> \<exists>(name, op) \<in> set options.
         k = toLowerCase (trim name) \<and> longName dec = toLowerCase (trim name) \<and>
         shortName dec = (case opt_shortName op of
                            None \<Rightarrow> None
                          | Some sn \<Rightarrow> if sn = [] then None
                                        else Some (take 1 (toLowerCase (trim sn))))"
    by (force simp: declarationOf_def normalizeName_def normalizeShortName_def substring01_def
          split: option.splits)
next
  fix e assume e: "e \<in> set options"
  obtain name op where eq: "e = (name, op)" by (cases e)
  have "normalizeName name \<in> set (map fst (createFlagDeclarations options))"
    unfolding createFlagDeclarations_def new_Map_keys using e
    by (force simp: eq declarationOf_def)
  then have "\<exists>dec. map_of (createFlagDeclarations options) (normalizeName name) = Some dec"
    by (metis map_of_eq_None_iff not_Some_eq set_map)
  then show "case e of (name, op) \<Rightarrow>
         \<exists>dec. Map_get (createFlagDeclarations options) (toLowerCase (trim name)) = Some dec"
    by (simp add: eq Map_get_def normalizeName_def)
qed

theorem createFlagDeclarations_names_witness:
  "\<exists>dec. Map_get (createFlagDeclarations [('' Config, C'', configOptions)]) ''config, c''
           = Some dec"
proof -
  have "toLowerCase (trim '' Config, C'') = ''config, c''"
    by (simp add: eval_defs)
  with createFlagDeclarations_names [of "[('' Config, C'', configOptions)]"]
  show ?thesis by simp
qed

text \<open>
  The claim as stated fails: the name \<open>config, c\<close> without a \<open>shortName\<close> option
  gives the long name \<open>config, c\<close> and no short name, not \<open>config\<close> and \<open>c\<close>.
\<close>

theorem createFlagDeclarations_comma_counterexample:
  "map (\<lambda>(k, d). (k, longName d, shortName d))
       (createFlagDeclarations [(''config, c'', configOptions)]) =
     [(''config, c'', ''config, c'', None)]"
  by (simp add: configOptions_def eval_defs)

section \<open>Undeclared names and the boolean convertor\<close>

text \<open>
  C6. For every name whose normalized form is not a key of the declaration map, and
  whatever the tokens are, resolving the name throws the error that the argument is
  not declared; the program state is left as it was.
\<close>

theorem getFlagValue_not_declared:
  fixes this :: "'s \<Rightarrow> 's Arguments"
  assumes "Map_get (flagDeclarations (this s)) (normalizeName name) = None"
  shows "getFlagValue this name s =
           (Inl (Error (''Argument '' @ [CHR 0x22] @ name @ [CHR 0x22] @ '' is not declared.'')), s)"
  using assms by (simp add: getFlagValue_def notFoundMessage_def)

theorem getFlagValue_not_declared_witness:
  "getFlagValue (portArguments exampleTokens) ''host'' 0 =
     (Inl (Error (''Argument '' @ [CHR 0x22] @ ''host'' @ [CHR 0x22] @ '' is not declared.'')), 0)"
proof -
  have "Map_get (flagDeclarations (portArguments exampleTokens 0)) (normalizeName ''host'') = None"
    by (simp add: portArguments_def eval_defs)
  from getFlagValue_not_declared
         [where this = "portArguments exampleTokens" and s = 0 and name = "''host''", OF this]
  show ?thesis .
qed

text \<open>
  C4 (amended). The boolean convertor maps \<open>undefined\<close> and \<open>false\<close> to false, bare
  flag presence (the boolean \<open>true\<close>) to true, and the strings that are \<open>true\<close> or
  \<open>1\<close> after lower-casing and trimming to true. It raises no validation failure:
  every raw value is converted to a boolean. In particular a flag declared with the
  boolean convertor whose token carries the value \<open>true\<close> resolves to true.
\<close>

theorem booleanConvertor_table:
  fixes this :: "'s \<Rightarrow> 's Arguments"
  shows "booleanConvertor RUndefined = JBool False
       \<and> booleanConvertor (RBool False) = JBool False
       \<and> booleanConvertor (RBool True) = JBool True
       \<and> (trim (toLowerCase str) = ''true'' \<or> trim (toLowerCase str) = ''1''
            \<longrightarrow> booleanConvertor (RStr str) = JBool True)
       \<and> (\<exists>b. booleanConvertor v = JBool b)
       \<and> (Map_get (flagDeclarations (this s)) (normalizeName name) = Some dec
            \<and> convertor dec = pure booleanConvertor
            \<and> getRaw (this s) (longName dec) FlagTag = Some (Flag n (RBool True))
            \<longrightarrow> getFlagValue this name s = (Inr (JBool True), s))"
  by (auto simp: booleanConvertor_def getFlagValue_def pure_def Let_def)

theorem booleanConvertor_table_witness:
  "booleanConvertor (RStr '' TRUE '') = JBool True
   \<and> getFlagValue (debugArguments [Flag ''debug'' (RBool True)]) ''debug'' 0
       = (Inr (JBool True), 0)"
proof -
  let ?dec = "declarationOf ''debug'' debugOptions"
  have 1: "trim (toLowerCase '' TRUE '') = ''true''"
    by (simp add: eval_defs)
  have 2: "Map_get (flagDeclarations (debugArguments [Flag ''debug'' (RBool True)] 0))
               (normalizeName ''debug'') = Some ?dec
            \<and> convertor ?dec = pure booleanConvertor
            \<and> getRaw (debugArguments [Flag ''debug'' (RBool True)] 0) (longName ?dec) FlagTag
                 = Some (Flag ''debug'' (RBool True))"
    by (simp add: debugArguments_def debugOptions_def constructor_def
          createFlagDeclarations_def new_Map_def Map_get_def declarationOf_def normalizeName_def
          normalizeShortName_def substring01_def trim_def toLowerCase_def toLowerCase_char_def
          isWhiteSpace_def getRaw_def)
  from booleanConvertor_table
         [where this = "debugArguments [Flag ''debug'' (RBool True)]" and s = 0
            and name = "''debug''" and dec = ?dec and n = "''debug''" and str = "'' TRUE ''"]
       1 2
  show ?thesis by simp
qed

text \<open>
  The claim as stated fails: a string that is neither truthy nor falsy is no
  validation failure, the convertor returns a boolean for it.
\<close>

theorem booleanConvertor_other_string_counterexample:
  "booleanConvertor (RStr ''maybe'') = JBool True"
  by (simp add: booleanConvertor_def eval_defs)

text \<open>
  The guard on the token in general: a declared flag that no \<open>Flag\<close> token matches
  by its long name throws, and no callback runs.
\<close>

lemma getFlagValue_absent_token:
  fixes this :: "'s \<Rightarrow> 's Arguments"
  assumes "Map_get (flagDeclarations (this s)) (normalizeName name) = Some dec"
    and "getRaw (this s) (longName dec) FlagTag = None"
  shows "getFlagValue this name s = (Inl (Error (notFoundMessage name)), s)"
  using assms by (simp add: getFlagValue_def)

text \<open>
  Where the default supplier is reached: the flag is declared and its first matching
  token carries \<open>undefined\<close>. Every call then calls the supplier on the current
  state, and \<open>null\<close> and \<open>undefined\<close> results become \<open>undefined\<close>.
\<close>

lemma getFlagValue_default_on_undefined_value:
  fixes this :: "'s \<Rightarrow> 's Arguments"
  assumes "Map_get (flagDeclarations (this s)) (normalizeName name) = Some dec"
    and "getRaw (this s) (longName dec) FlagTag = Some f"
    and "value_of f = RUndefined"
    and "default dec = Some d"
    and "d s = (Inr v, s')"
  shows "getFlagValue this name s =
           (Inr (if v = JNull \<or> v = JUndefined then JUndefined else v), s')"
  using assms by (simp add: getFlagValue_def)

lemma getFlagValue_default_twice:
  "getFlagValue outThis ''out'' (0, None) = (Inr (JObj 0), (1, None))
   \<and> getFlagValue outThis ''out'' (1, None) = (Inr (JObj 1), (2, None))"
  by (simp add: outThis_def outOptions_def eval_defs)

section \<open>The help message\<close>





text \<open>Removing the entries of one key from a map commutes with building it.\<close>

lemma remove_Map_set_other:
  "k \<noteq> kh \<Longrightarrow>
     filter (\<lambda>(k', d). k' \<noteq> kh) (Map_set k v m) = Map_set k v (filter (\<lambda>(k', d). k' \<noteq> kh) m)"
  by (induction m) auto

lemma remove_Map_set_same:
  "filter (\<lambda>(k', d). k' \<noteq> kh) (Map_set kh v m) = filter (\<lambda>(k', d). k' \<noteq> kh) m"
  by (induction m) auto

lemma remove_foldl_Map_set:
  "kh \<notin> set (map fst es) \<Longrightarrow>
     filter (\<lambda>(k', d). k' \<noteq> kh) (foldl (\<lambda>m (k, v). Map_set k v m) acc es)
       = foldl (\<lambda>m (k, v). Map_set k v m) (filter (\<lambda>(k', d). k' \<noteq> kh) acc) es"
proof (induction es arbitrary: acc)
  case Nil
  then show ?case by simp
next
  case (Cons e es)
  obtain k v where e: "e = (k, v)" by (cases e)
  from Cons.prems have "k \<noteq> kh" and "kh \<notin> set (map fst es)" by (auto simp: e)
  then show ?case
    by (simp add: e Cons.IH remove_Map_set_other)
qed

lemma remove_new_Map:
  assumes "kh \<notin> set (map fst pre)" and "kh \<notin> set (map fst post)"
  shows "filter (\<lambda>(k', d). k' \<noteq> kh) (new_Map (pre @ (kh, dh) # post)) = new_Map (pre @ post)"
proof -
  let ?F = "foldl (\<lambda>m (k, v). Map_set k v m)"
  let ?rm = "filter (\<lambda>(k', d). k' \<noteq> kh)"
  have "?rm (?F [] (pre @ (kh, dh) # post)) = ?rm (?F (Map_set kh dh (?F [] pre)) post)"
    by simp
  also have "\<dots> = ?F (?rm (Map_set kh dh (?F [] pre))) post"
    using assms(2) by (rule remove_foldl_Map_set)
  also have "\<dots> = ?F (?rm (?F [] pre)) post"
    by (simp only: remove_Map_set_same)
  also have "?rm (?F [] pre) = ?F (?rm []) pre"
    using assms(1) by (rule remove_foldl_Map_set)
  finally show ?thesis by (simp add: new_Map_def)
qed

lemma visible_remove:
  assumes "\<forall>(k, d) \<in> set m. k = kh \<longrightarrow> excludeFromHelp d"
  shows "filter (\<lambda>dec. \<not> excludeFromHelp dec) (map snd (filter (\<lambda>(k', d). k' \<noteq> kh) m))
           = filter (\<lambda>dec. \<not> excludeFromHelp dec) (map snd m)"
  using assms by (induction m) auto

lemma visible_filter:
  "filter (\<lambda>dec. \<not> excludeFromHelp dec) (map snd (filter (\<lambda>(k, d). \<not> excludeFromHelp d) m))
     = filter (\<lambda>dec. \<not> excludeFromHelp dec) (map snd m)"
  by (induction m) auto

lemma visible_new_Map_hidden:
  assumes k1: "kh \<notin> set (map fst pre)" and k2: "kh \<notin> set (map fst post)"
    and ex: "excludeFromHelp dh"
  shows "filter (\<lambda>dec. \<not> excludeFromHelp dec) (map snd (new_Map (pre @ (kh, dh) # post)))
           = filter (\<lambda>dec. \<not> excludeFromHelp dec) (map snd (new_Map (pre @ post)))"
proof -
  have only: "\<forall>(k, d) \<in> set (new_Map (pre @ (kh, dh) # post)). k = kh \<longrightarrow> excludeFromHelp d"
  proof (intro ballI)
    fix e assume "e \<in> set (new_Map (pre @ (kh, dh) # post))"
    then have e: "e \<in> set pre \<or> e = (kh, dh) \<or> e \<in> set post"
      using new_Map_subset [of "pre @ (kh, dh) # post"] by auto
    obtain k d where kd: "e = (k, d)" by (cases e)
    have "d = dh" if "k = kh"
    proof -
      from k1 that have "e \<notin> set pre" by (force simp: kd)
      moreover from k2 that have "e \<notin> set post" by (force simp: kd)
      ultimately show ?thesis using e by (simp add: kd)
    qed
    then show "case e of (k, d) \<Rightarrow> k = kh \<longrightarrow> excludeFromHelp d"
      using ex by (simp add: kd)
  qed
  show ?thesis
    using visible_remove [OF only] remove_new_Map [OF k1 k2, of dh] by simp
qed

text \<open>
  The help message reads the declarations that are not excluded, and the description
  of the instance, and nothing else of the instance.
\<close>

lemma computeHelpMessage_cong:
  assumes "filter (\<lambda>dec. \<not> excludeFromHelp dec) (map snd (flagDeclarations (this1 s)))
         = filter (\<lambda>dec. \<not> excludeFromHelp dec) (map snd (flagDeclarations (this2 s)))"
    and "\<And>t. desciprion (this1 t) = desciprion (this2 t)"
  shows "computeHelpMessage P S I this1 s = computeHelpMessage P S I this2 s"
  by (simp add: computeHelpMessage_def assms split: prod.split sum.split)

text \<open>
  C8. The rendered help has no block for a declaration whose \<open>excludeFromHelp\<close> is
  true: the result of \<open>computeHelpMessage\<close>, with the state it leaves, is the result on
  the instance whose map holds only the declarations that are not excluded. And the
  help flag of \<open>createHelp\<close> does not appear by default, that is unless another
  specification is named \<open>help\<close>: with and without the entries of \<open>createHelp\<close> among
  the specifications the rendered help is the same.
\<close>

theorem computeHelpMessage_hides_excluded:
  fixes this :: "'s \<Rightarrow> 's Arguments"
  shows "computeHelpMessage primary secondary inspect
           (\<lambda>t. (this t)\<lparr> flagDeclarations :=
                    filter (\<lambda>(k, d). \<not> excludeFromHelp d) (flagDeclarations (this t)) \<rparr>) s
         = computeHelpMessage primary secondary inspect this s
       \<and> ((\<forall>(n, op) \<in> set (pre @ post). normalizeName n \<noteq> ''help'') \<longrightarrow>
            computeHelpMessage primary secondary inspect
              (\<lambda>t. (this t)\<lparr> flagDeclarations :=
                       createFlagDeclarations (pre @ createHelp @ post) \<rparr>) s
            = computeHelpMessage primary secondary inspect
              (\<lambda>t. (this t)\<lparr> flagDeclarations := createFlagDeclarations (pre @ post) \<rparr>) s)"
proof (intro conjI impI)
  show "computeHelpMessage primary secondary inspect
           (\<lambda>t. (this t)\<lparr> flagDeclarations :=
                    filter (\<lambda>(k, d). \<not> excludeFromHelp d) (flagDeclarations (this t)) \<rparr>) s
         = computeHelpMessage primary secondary inspect this s"
    by (rule computeHelpMessage_cong) (simp_all add: visible_filter)
next
  assume fresh: "\<forall>(n, op) \<in> set (pre @ post). normalizeName n \<noteq> ''help''"
  let ?E = "\<lambda>options :: (string \<times> 's FlagOptions) list.
              map (\<lambda>declaration. (longName declaration, declaration))
                  (map (\<lambda>(name, op). declarationOf name op) options)"
  let ?dh = "declarationOf ''help'' (snd (hd createHelp)) :: 's FlagDeclaration"
  have E: "?E (pre @ createHelp @ post) = ?E pre @ (''help'', ?dh) # ?E post"
    by (simp add: createHelp_def helpFlagNames_def declarationOf_def normalizeName_def
          trim_def toLowerCase_def toLowerCase_char_def isWhiteSpace_def)
  have ex: "excludeFromHelp ?dh"
    by (simp add: createHelp_def declarationOf_def)
  have k1: "''help'' \<notin> set (map fst (?E pre))" and k2: "''help'' \<notin> set (map fst (?E post))"
    using fresh by (force simp: declarationOf_def)+
  have "filter (\<lambda>dec. \<not> excludeFromHelp dec)
          (map snd (createFlagDeclarations (pre @ createHelp @ post)))
        = filter (\<lambda>dec. \<not> excludeFromHelp dec) (map snd (createFlagDeclarations (pre @ post)))"
    unfolding createFlagDeclarations_def E
    using visible_new_Map_hidden [OF k1 k2 ex] by simp
  then show "computeHelpMessage primary secondary inspect
              (\<lambda>t. (this t)\<lparr> flagDeclarations :=
                       createFlagDeclarations (pre @ createHelp @ post) \<rparr>) s
            = computeHelpMessage primary secondary inspect
              (\<lambda>t. (this t)\<lparr> flagDeclarations := createFlagDeclarations (pre @ post) \<rparr>) s"
    by (intro computeHelpMessage_cong) simp_all
qed

lemma helpArguments_message:
  "computeHelpMessage id id exampleInspect helpArguments 0 = (Inr helpText, 1)"
  by code_simp

theorem computeHelpMessage_hides_excluded_witness:
  "computeHelpMessage id id exampleInspect
       (\<lambda>t. (helpArguments t)\<lparr> flagDeclarations :=
                createFlagDeclarations ([] @ createHelp @ [(''port'', describedOptions)]) \<rparr>) 0
     = computeHelpMessage id id exampleInspect
       (\<lambda>t. (helpArguments t)\<lparr> flagDeclarations :=
                createFlagDeclarations ([] @ [(''port'', describedOptions)]) \<rparr>) 0
   \<and> computeHelpMessage id id exampleInspect helpArguments 0 = (Inr helpText, 1)"
proof -
  have "\<forall>(n, op) \<in> set ([] @ [(''port'', describedOptions)]). normalizeName n \<noteq> ''help''"
    by (simp add: eval_defs)
  with computeHelpMessage_hides_excluded
         [where primary = id and secondary = id and inspect = exampleInspect
            and this = helpArguments and s = 0 and pre = "[]"
            and post = "[(''port'', describedOptions)]"]
       helpArguments_message
  show ?thesis by blast
qed

text \<open>
  C7 (amended). \<open>triggerHelp\<close> never returns normally. Whenever \<open>computeHelpMessage\<close>
  returns a string, \<open>triggerHelp\<close> raises the interruption whose message is exactly
  that string, and \<open>isPrintableException\<close> classifies it as printable; whenever
  \<open>computeHelpMessage\<close> throws, \<open>triggerHelp\<close> raises what it threw.
\<close>

theorem triggerHelp_raises:
  "isl (fst (triggerHelp primary secondary inspect this s))
   \<and> (computeHelpMessage primary secondary inspect this s = (Inr message, s') \<longrightarrow>
        triggerHelp primary secondary inspect this s = (Inl (InfoInterruption message), s')
        \<and> isPrintableException (InfoInterruption message))
   \<and> (computeHelpMessage primary secondary inspect this s = (Inl e, s') \<longrightarrow>
        triggerHelp primary secondary inspect this s = (Inl e, s'))"
  by (cases "computeHelpMessage primary secondary inspect this s")
     (auto simp: triggerHelp_def isPrintableException_def split: sum.splits)

theorem triggerHelp_raises_witness:
  "triggerHelp id id exampleInspect helpArguments 0 = (Inl (InfoInterruption helpText), 1)
   \<and> isPrintableException (InfoInterruption helpText)"
  using triggerHelp_raises
          [where primary = id and secondary = id and inspect = exampleInspect
             and this = helpArguments and s = 0 and message = helpText and s' = 1]
    helpArguments_message
  by simp

text \<open>
  The claim as stated fails: when the default supplier of a listed declaration throws
  while the help is rendered, \<open>triggerHelp\<close> raises that error, which is no
  interruption and is not printable.
\<close>

theorem triggerHelp_propagates_counterexample:
  "triggerHelp id id exampleInspect failingArguments 0 = (Inl (Error ''boom''), 0)
   \<and> \<not> isPrintableException (Error ''boom'')"
  by code_simp

section \<open>Queries leave the instance unchanged\<close>

lemma getFlagValue_frame:
  fixes this :: "'s \<Rightarrow> 's Arguments"
  assumes conv: "\<And>k dec v t. (k, dec) \<in> set (flagDeclarations (this s)) \<Longrightarrow>
                   this (snd (convertor dec v t)) = this t"
    and dflt: "\<And>k dec d t. (k, dec) \<in> set (flagDeclarations (this s)) \<Longrightarrow>
                   default dec = Some d \<Longrightarrow> this (snd (d t)) = this t"
  shows "this (snd (getFlagValue this name s)) = this s"
proof (cases "Map_get (flagDeclarations (this s)) (normalizeName name)")
  case None
  then show ?thesis by (simp add: getFlagValue_def)
next
  case (Some dec)
  then have mem: "(normalizeName name, dec) \<in> set (flagDeclarations (this s))"
    by (simp add: Map_get_def map_of_SomeD)
  show ?thesis
  proof (cases "getRaw (this s) (longName dec) FlagTag")
    case None
    then show ?thesis by (simp add: getFlagValue_def Some)
  next
    case flag: (Some f)
    show ?thesis
    proof (cases "value_of f = RUndefined")
      case False
      then show ?thesis
        using conv [OF mem, of "value_of f" s] by (simp add: getFlagValue_def Some flag)
    next
      case True
      show ?thesis
      proof (cases "default dec")
        case None
        then show ?thesis by (simp add: getFlagValue_def Some flag True)
      next
        case d: (Some d)
        have "this (snd (d s)) = this s" using dflt [OF mem d] .
        then show ?thesis
          by (cases "d s") (auto simp: getFlagValue_def Some flag True d split: sum.splits)
      qed
    qed
  qed
qed

lemma helpBlock_frame:
  fixes this :: "'s \<Rightarrow> 's Arguments"
  assumes "\<And>d t. default dec = Some d \<Longrightarrow> this (snd (d t)) = this t"
  shows "this (snd (helpBlock P S I dec t)) = this t"
proof (cases "default dec")
  case None
  then show ?thesis
    by (simp add: helpBlock_def defaultValue_def split: sum.splits)
next
  case (Some d)
  have "this (snd (d t)) = this t" using assms [OF Some] .
  then show ?thesis
    by (cases "d t") (auto simp: helpBlock_def defaultValue_def Some Let_def split: sum.splits)
qed

text \<open>
  C10. Provided no convertor and no default supplier of a declaration changes the
  instance, a single-flag resolution, \<open>getFlags\<close>, \<open>isHelpRequested\<close> and
  \<open>computeHelpMessage\<close> leave the instance as it was: the same tokens, the same
  declaration map and the same description.
\<close>

theorem queries_leave_instance_unchanged:
  fixes this :: "'s \<Rightarrow> 's Arguments"
  assumes conv: "\<And>k dec v t. (k, dec) \<in> set (flagDeclarations (this s)) \<Longrightarrow>
                   this (snd (convertor dec v t)) = this t"
    and dflt: "\<And>k dec d t. (k, dec) \<in> set (flagDeclarations (this s)) \<Longrightarrow>
                   default dec = Some d \<Longrightarrow> this (snd (d t)) = this t"
  shows "this (snd (getFlagValue this name s)) = this s
       \<and> this (snd (getFlags this s)) = this s
       \<and> this (snd (isHelpRequested this s)) = this s
       \<and> this (snd (computeHelpMessage primary secondary inspect this s)) = this s"
proof (intro conjI)
  show "this (snd (getFlagValue this name s)) = this s"
    using conv dflt by (rule getFlagValue_frame)
  have step: "this (snd (getFlagValue this n t)) = this s" if "this t = this s" for n t
  proof -
    have "this (snd (getFlagValue this n t)) = this t"
      by (rule getFlagValue_frame) (use conv dflt that in auto)
    with that show ?thesis by simp
  qed
  show "this (snd (getFlags this s)) = this s"
    unfolding getFlags_def
  proof (rule array_map_invariant [where I = "\<lambda>t. this t = this s"])
    fix x t assume "this t = this s"
    then have "this (snd (getFlagValue this x t)) = this s" by (rule step)
    then show "this (snd (case getFlagValue this x t of
                    (Inl e, t') \<Rightarrow> (Inl e, t')
                  | (Inr v, t') \<Rightarrow> (Inr (x, v), t'))) = this s"
      by (cases "getFlagValue this x t") (auto split: sum.splits)
  qed simp
  have "this (snd (getFlagValue this (helpFlagNames ! 0) s)) = this s"
    by (rule step) simp
  then show "this (snd (isHelpRequested this s)) = this s"
    by (cases "getFlagValue this (helpFlagNames ! 0) s")
       (auto simp: isHelpRequested_def split: sum.splits)
  let ?visible = "filter (\<lambda>dec. \<not> excludeFromHelp dec) (map snd (flagDeclarations (this s)))"
  have "this (snd (array_map (helpBlock primary secondary inspect) ?visible s)) = this s"
  proof (rule array_map_invariant [where I = "\<lambda>t. this t = this s"])
    fix dec t assume dec: "dec \<in> set ?visible" and t: "this t = this s"
    from dec obtain k where mem: "(k, dec) \<in> set (flagDeclarations (this s))" by auto
    have "this (snd (helpBlock primary secondary inspect dec t)) = this t"
      by (rule helpBlock_frame) (use dflt [OF mem] in auto)
    with t show "this (snd (helpBlock primary secondary inspect dec t)) = this s" by simp
  qed simp
  then show "this (snd (computeHelpMessage primary secondary inspect this s)) = this s"
    by (cases "array_map (helpBlock primary secondary inspect) ?visible s")
       (auto simp: computeHelpMessage_def Let_def split: sum.splits)
qed

theorem queries_leave_instance_unchanged_witness:
  "outThis (snd (getFlagValue outThis ''out'' (0, Some ''tool''))) = outThis (0, Some ''tool'')
   \<and> outThis (snd (getFlags outThis (0, Some ''tool''))) = outThis (0, Some ''tool'')
   \<and> outThis (snd (isHelpRequested outThis (0, Some ''tool''))) = outThis (0, Some ''tool'')
   \<and> outThis (snd (computeHelpMessage id id exampleInspect outThis (0, Some ''tool'')))
        = outThis (0, Some ''tool'')
   \<and> getFlags outThis (0, Some ''tool'') = (Inr [(''out'', JObj 0)], (1, Some ''tool''))"
proof -
  have decls: "flagDeclarations (outThis s) = [(''out'', declarationOf ''out'' outOptions)]" for s
    by (simp add: outThis_def eval_defs)
  have conv: "outThis (snd (convertor dec v t)) = outThis t"
    if "(k, dec) \<in> set (flagDeclarations (outThis (0, Some ''tool'')))" for k dec v t
    using that by (simp add: decls declarationOf_def outOptions_def pure_def)
  have dflt: "outThis (snd (d t)) = outThis t"
    if "(k, dec) \<in> set (flagDeclarations (outThis (0, Some ''tool'')))"
      and "default dec = Some d"
    for k dec d t
  proof -
    from that(1) have "dec = declarationOf ''out'' outOptions" by (simp add: decls)
    with that(2) have "d = (\<lambda>(n, d). (Inr (JObj n), (Suc n, d)))"
      by (simp add: declarationOf_def outOptions_def)
    then show ?thesis by (cases t) (simp add: outThis_def)
  qed
  have run: "getFlags outThis (0, Some ''tool'') = (Inr [(''out'', JObj 0)], (1, Some ''tool''))"
    by code_simp
  have "outThis (snd (getFlagValue outThis ''out'' (0, Some ''tool''))) = outThis (0, Some ''tool'')
   \<and> outThis (snd (getFlags outThis (0, Some ''tool''))) = outThis (0, Some ''tool'')
   \<and> outThis (snd (isHelpRequested outThis (0, Some ''tool''))) = outThis (0, Some ''tool'')
   \<and> outThis (snd (computeHelpMessage id id exampleInspect outThis (0, Some ''tool'')))
        = outThis (0, Some ''tool'')"
  proof (rule queries_leave_instance_unchanged [where this = outThis and s = "(0, Some ''tool'')"])
    fix k dec v t
    assume "(k, dec) \<in> set (flagDeclarations (outThis (0, Some ''tool'')))"
    then show "outThis (snd (convertor dec v t)) = outThis t" by (rule conv)
  next
    fix k dec d t
    assume "(k, dec) \<in> set (flagDeclarations (outThis (0, Some ''tool'')))"
      and "default dec = Some d"
    then show "outThis (snd (d t)) = outThis t" by (rule dflt)
  qed
  with run show ?thesis by simp
qed

end
